theory Spec2Isabelle
  imports Main "HOL-Library.Word" "HOL-Library.List_Lexorder"
begin

section \<open>Values, errors and byte primitives of ghtar.py\<close>

text \<open>
  A Python \<open>bytes\<close> value is a list of 8-bit words.  A Python \<open>str\<close> is a list of
  Unicode code points (natural numbers), so that \<open>len\<close> counts code points as Python
  does.  Python integers are unbounded; every integer below is a size, an index or a
  code point, hence a natural number.  Every \<open>raise\<close> and every failing \<open>assert\<close> of
  the source is the \<open>Inl\<close> branch of a sum.
\<close>

type_synonym byte = "8 word"
type_synonym pystr = "nat list"

datatype error =
    AssertionError
  | RuntimeError
  | UnicodeEncodeError
  | KeyError
  | IndexError
  | TypeError

definition ebind :: "error + 'a \<Rightarrow> ('a \<Rightarrow> error + 'b) \<Rightarrow> error + 'b" where
  "ebind m f = (case m of Inl e \<Rightarrow> Inl e | Inr x \<Rightarrow> f x)"

definition py :: "string \<Rightarrow> pystr" where
  "py s = map of_char s"

definition mk_uint8 :: "nat \<Rightarrow> error + byte list" where
  "mk_uint8 v = (if v \<le> 255 then Inr [of_nat v] else Inl AssertionError)"

definition mk_uint16 :: "nat \<Rightarrow> error + byte list" where
  "mk_uint16 v =
     (if v \<le> 65535 then Inr [of_nat (v div 256), of_nat (v mod 256)]
      else Inl AssertionError)"

definition mk_bool :: "bool \<Rightarrow> error + byte list" where
  "mk_bool b = mk_uint8 (if b then 1 else 0)"

definition mk_ref :: "nat \<Rightarrow> error + byte list" where
  "mk_ref i = mk_uint16 i"

definition mk_chunk :: "nat \<Rightarrow> byte list \<Rightarrow> error + byte list" where
  "mk_chunk chunk_id chunk_data =
     (if chunk_id \<le> 255
      then ebind (mk_uint16 (length chunk_data))
             (\<lambda>sz. Inr (of_nat chunk_id # sz @ chunk_data))
      else Inl AssertionError)"

subsection \<open>Chunk kinds\<close>

definition BLOCK_HEADER :: nat where "BLOCK_HEADER = 0"
definition BLOCK_ASCII :: nat where "BLOCK_ASCII = 1"
definition BLOCK_UTF16 :: nat where "BLOCK_UTF16 = 2"
definition BLOCK_REL_HOME :: nat where "BLOCK_REL_HOME = 3"
definition BLOCK_ASCII_REPLACED_HOME :: nat where "BLOCK_ASCII_REPLACED_HOME = 4"
definition BLOCK_UTF16_REPLACED_HOME :: nat where "BLOCK_UTF16_REPLACED_HOME = 5"
definition BLOCK_FOLDER :: nat where "BLOCK_FOLDER = 20"
definition BLOCK_FILE :: nat where "BLOCK_FILE = 21"
definition BLOCK_CHMOD :: nat where "BLOCK_CHMOD = 24"
definition BLOCK_CHOWN :: nat where "BLOCK_CHOWN = 25"
definition BLOCK_CHGROUP :: nat where "BLOCK_CHGROUP = 26"
definition BLOCK_LAUNCH :: nat where "BLOCK_LAUNCH = 82"

definition FILE_VERSION__UNCOMPRESSED :: nat where "FILE_VERSION__UNCOMPRESSED = 1"
definition FILE_VERSION__COMPRESSED :: nat where "FILE_VERSION__COMPRESSED = 2"

lemmas block_kinds =
  BLOCK_HEADER_def BLOCK_ASCII_def BLOCK_UTF16_def BLOCK_REL_HOME_def
  BLOCK_ASCII_REPLACED_HOME_def BLOCK_UTF16_REPLACED_HOME_def BLOCK_FOLDER_def
  BLOCK_FILE_def BLOCK_CHMOD_def BLOCK_CHOWN_def BLOCK_CHGROUP_def BLOCK_LAUNCH_def
  FILE_VERSION__UNCOMPRESSED_def FILE_VERSION__COMPRESSED_def

subsection \<open>Block creators\<close>

definition mk_block_header :: "nat \<Rightarrow> error + byte list" where
  "mk_block_header version =
     ebind (mk_uint16 version) (\<lambda>v.
     ebind (mk_uint16 0) (\<lambda>z.
     mk_chunk BLOCK_HEADER (v @ z)))"

definition mk_block_folder :: "nat \<Rightarrow> nat \<Rightarrow> error + byte list" where
  "mk_block_folder parent_index name_index =
     ebind (mk_ref parent_index) (\<lambda>p.
     ebind (mk_ref name_index) (\<lambda>n.
     mk_chunk BLOCK_FOLDER (p @ n)))"

definition mk_block_chown :: "nat \<Rightarrow> nat \<Rightarrow> bool \<Rightarrow> error + byte list" where
  "mk_block_chown file_name_index username_index recursive =
     ebind (mk_ref file_name_index) (\<lambda>f.
     ebind (mk_ref username_index) (\<lambda>u.
     ebind (mk_bool recursive) (\<lambda>r.
     mk_chunk BLOCK_CHOWN (f @ u @ r))))"

text \<open>As in the source, the chgroup builder passes \<open>BLOCK_CHOWN\<close> to \<open>mk_chunk\<close>.\<close>

definition mk_block_chgroup :: "nat \<Rightarrow> nat \<Rightarrow> bool \<Rightarrow> error + byte list" where
  "mk_block_chgroup file_name_index group_index recursive =
     ebind (mk_ref file_name_index) (\<lambda>f.
     ebind (mk_ref group_index) (\<lambda>g.
     ebind (mk_bool recursive) (\<lambda>r.
     mk_chunk BLOCK_CHOWN (f @ g @ r))))"

fun mk_refs :: "nat list \<Rightarrow> error + byte list" where
  "mk_refs [] = Inr []"
| "mk_refs (a # as) = ebind (mk_ref a) (\<lambda>r. ebind (mk_refs as) (\<lambda>rs. Inr (r @ rs)))"

text \<open>
  \<open>mk_block_launch\<close>: the count byte, then one reference per argument (the loop
  \<open>for arg in argument_index: data += mk_ref(arg)\<close> is \<open>mk_refs\<close>).
\<close>

definition mk_block_launch :: "nat list \<Rightarrow> error + byte list" where
  "mk_block_launch argument_index =
     (if length argument_index < 1 then Inl RuntimeError
      else ebind (mk_uint8 (length argument_index)) (\<lambda>c.
           ebind (mk_refs argument_index) (\<lambda>rs.
           mk_chunk BLOCK_LAUNCH (c @ rs))))"

section \<open>Chunk framing\<close>

lemma mk_uint16_Inr:
  "mk_uint16 v = Inr bs \<longleftrightarrow> v \<le> 65535 \<and> bs = [of_nat (v div 256), of_nat (v mod 256)]"
  by (auto simp: mk_uint16_def)

lemma mk_uint16_value:
  assumes "v \<le> 65535"
  shows "256 * unat (of_nat (v div 256) :: byte) + unat (of_nat (v mod 256) :: byte) = v"
proof -
  have "v div 256 < 256" using assms by simp
  then have "unat (of_nat (v div 256) :: byte) = v div 256"
    by (simp add: unat_of_nat)
  moreover have "unat (of_nat (v mod 256) :: byte) = v mod 256"
    by (simp add: unat_of_nat)
  ultimately show ?thesis by simp
qed

text \<open>
  Claim C10.  Every chunk is built by \<open>mk_chunk\<close>.  Whenever \<open>mk_chunk\<close> returns a
  chunk, its payload has at most 65535 bytes, the chunk is the kind byte, the payload
  length as an unsigned 16-bit big-endian value and the payload, and the declared
  length read back from those two bytes is the payload's length.  On a payload of more
  than 65535 bytes \<open>mk_chunk\<close> fails with the range check of \<open>mk_uint16\<close> and returns
  no chunk.
\<close>

theorem mk_chunk_payload_bound:
  "(mk_chunk k d = Inr out \<longrightarrow>
      length d \<le> 65535 \<and>
      out = of_nat k # of_nat (length d div 256) # of_nat (length d mod 256) # d \<and>
      256 * unat (out ! 1) + unat (out ! 2) = length d \<and>
      drop 3 out = d) \<and>
   (65535 < length d \<longrightarrow> mk_chunk k d = Inl AssertionError)"
proof (intro conjI impI)
  assume big: "65535 < length d"
  then show "mk_chunk k d = Inl AssertionError"
    by (simp add: mk_chunk_def mk_uint16_def ebind_def)
next
  assume ok: "mk_chunk k d = Inr out"
  then have len: "length d \<le> 65535"
    by (auto simp: mk_chunk_def mk_uint16_def ebind_def split: if_splits)
  from ok show out: "out = of_nat k # of_nat (length d div 256) # of_nat (length d mod 256) # d"
    by (auto simp: mk_chunk_def mk_uint16_def ebind_def split: if_splits)
  show "length d \<le> 65535" by (rule len)
  show "256 * unat (out ! 1) + unat (out ! 2) = length d"
    using mk_uint16_value [OF len] by (simp add: out)
  show "drop 3 out = d" by (simp add: out)
qed

theorem mk_chunk_payload_bound_witness:
  "mk_chunk 20 [0, 1, 0, 2] = Inr [20, 0, 4, 0, 1, 0, 2] \<and>
   length [0, 1, 0, 2 :: byte] \<le> 65535 \<and>
   256 * unat ([20, 0, 4, 0, 1, 0, 2 :: byte] ! 1) + unat ([20, 0, 4, 0, 1, 0, 2 :: byte] ! 2) = 4 \<and>
   65535 < length (replicate 65536 (0 :: byte)) \<and>
   mk_chunk 20 (replicate 65536 0) = Inl AssertionError"
proof -
  have a: "mk_chunk 20 [0, 1, 0, 2] = Inr [20, 0, 4, 0, 1, 0, 2]"
    by (simp add: mk_chunk_def mk_uint16_def ebind_def)
  have b: "65535 < length (replicate 65536 (0 :: byte))" by simp
  from mk_chunk_payload_bound [of 20 "[0, 1, 0, 2]" "[20, 0, 4, 0, 1, 0, 2]"] a
  have c: "256 * unat ([20, 0, 4, 0, 1, 0, 2 :: byte] ! 1)
             + unat ([20, 0, 4, 0, 1, 0, 2 :: byte] ! 2) = length [0, 1, 0, 2 :: byte]"
    by blast
  from mk_chunk_payload_bound [of 20 "replicate 65536 0" "[]"] b
  have d: "mk_chunk 20 (replicate 65536 0) = Inl AssertionError" by blast
  from a b c d show ?thesis by simp
qed

section \<open>The chgroup chunk\<close>

text \<open>
  Claim C2.  The claim says the chunk built by \<open>mk_block_chgroup\<close> has kind byte 26.
  The source passes \<open>BLOCK_CHOWN\<close>: at string-pool indices 0 and 1 with the recursion
  flag set, the chunk built is kind 25, length 5, the two references and the flag, so
  its kind byte is not \<open>BLOCK_CHGROUP\<close>.
\<close>

theorem mk_block_chgroup_emits_chown_kind:
  "mk_block_chgroup 0 1 True = Inr [25, 0, 5, 0, 0, 0, 1, 1] \<and>
   mk_block_chgroup 0 1 True = mk_block_chown 0 1 True \<and>
   BLOCK_CHGROUP = 26"
  by (simp add: mk_block_chgroup_def mk_block_chown_def mk_ref_def mk_bool_def
      mk_uint8_def mk_uint16_def mk_chunk_def ebind_def BLOCK_CHOWN_def BLOCK_CHGROUP_def)

section \<open>The import rewriter of the file manager\<close>

subsection \<open>Python string primitives\<close>

text \<open>
  \<open>str.splitlines\<close> breaks a string at the line boundaries of Python: LF, VT, FF, CR
  (and CR LF as one boundary), FS, GS, RS, NEL, LS and PS; a final line boundary gives
  no empty last line.  \<open>str.strip\<close> and the regular expression class \<open>\s\<close> use the
  white space of \<open>str.isspace\<close>.
\<close>

definition is_linebreak :: "nat \<Rightarrow> bool" where
  "is_linebreak c \<longleftrightarrow> c \<in> set [10, 11, 12, 13, 28, 29, 30, 133, 8232, 8233]"

definition is_space :: "nat \<Rightarrow> bool" where
  "is_space c \<longleftrightarrow>
     (9 \<le> c \<and> c \<le> 13) \<or> (28 \<le> c \<and> c \<le> 32) \<or> c = 133 \<or> c = 160 \<or> c = 5760 \<or>
     (8192 \<le> c \<and> c \<le> 8202) \<or> c = 8232 \<or> c = 8233 \<or> c = 8239 \<or> c = 8287 \<or>
     c = 12288"

fun splitlines_from :: "pystr \<Rightarrow> pystr \<Rightarrow> pystr list" where
  "splitlines_from cur [] = (if cur = [] then [] else [cur])"
| "splitlines_from cur [c] =
     (if is_linebreak c then [cur] else [cur @ [c]])"
| "splitlines_from cur (c # d # rest) =
     (if c = 13 \<and> d = 10 then cur # splitlines_from [] rest
      else if is_linebreak c then cur # splitlines_from [] (d # rest)
      else splitlines_from (cur @ [c]) (d # rest))"

definition splitlines :: "pystr \<Rightarrow> pystr list" where
  "splitlines s = splitlines_from [] s"

definition strip :: "pystr \<Rightarrow> pystr" where
  "strip s = rev (dropWhile is_space (rev (dropWhile is_space s)))"

fun startswith :: "pystr \<Rightarrow> pystr \<Rightarrow> bool" where
  "startswith s [] = True"
| "startswith [] (p # ps) = False"
| "startswith (c # cs) (p # ps) = (c = p \<and> startswith cs ps)"

fun contains :: "pystr \<Rightarrow> pystr \<Rightarrow> bool" where
  "contains [] sub = (sub = [])"
| "contains (c # cs) sub = (startswith (c # cs) sub \<or> contains cs sub)"

subsection \<open>Stripping a trailing comment\<close>

text \<open>
  \<open>FileManager._strip_trailing_comment\<close>.  \<open>strip_scan line state pos rest\<close> is the
  loop \<open>for pos in range(0, len(line))\<close> at position \<open>pos\<close>, with \<open>rest\<close> the
  characters from \<open>pos\<close> on.  State 0 is plain text, 1 is inside a string, 2 is after a
  first slash; as in the source, state 2 has no branch for a character other than a
  slash, so the state stays 2.  Code point 34 is the double quote, 47 the slash.
\<close>

fun strip_scan :: "pystr \<Rightarrow> nat \<Rightarrow> nat \<Rightarrow> pystr \<Rightarrow> pystr" where
  "strip_scan line state pos [] = line"
| "strip_scan line state pos (val # rest) =
     (if state = 0 then
        (if val = 34 then strip_scan line 1 (pos + 1) rest
         else if val = 47 then strip_scan line 2 (pos + 1) rest
         else strip_scan line 0 (pos + 1) rest)
      else if state = 1 then
        (if val = 34 then strip_scan line 0 (pos + 1) rest
         else strip_scan line 1 (pos + 1) rest)
      else if state = 2 then
        (if val = 47 then take (pos - 1) line
         else strip_scan line 2 (pos + 1) rest)
      else strip_scan line state (pos + 1) rest)"

definition strip_trailing_comment :: "pystr \<Rightarrow> pystr" where
  "strip_trailing_comment line =
     (if \<not> contains line [47, 47] then line else strip_scan line 0 0 line)"

subsection \<open>Matching an import line\<close>

text \<open>
  \<open>IMPORT_RE\<close> is \<^verbatim>\<open>^\s*import_code\s*\(\s*"([^"]+)"\s*\)\s*$\<close>.  Every
  repetition in it is followed by a character outside the repeated class, so the match
  is found without backtracking: skip white space, read the literal, and so on.
  \<open>import_re_match\<close> returns group 1.
\<close>

fun expect :: "pystr \<Rightarrow> pystr \<Rightarrow> pystr option" where
  "expect [] s = Some s"
| "expect (p # ps) [] = None"
| "expect (p # ps) (c # cs) = (if p = c then expect ps cs else None)"

definition import_re_match :: "pystr \<Rightarrow> pystr option" where
  "import_re_match line =
     (case expect (py ''import_code'') (dropWhile is_space line) of
        None \<Rightarrow> None
      | Some r1 \<Rightarrow>
     (case expect [40] (dropWhile is_space r1) of
        None \<Rightarrow> None
      | Some r2 \<Rightarrow>
     (case expect [34] (dropWhile is_space r2) of
        None \<Rightarrow> None
      | Some r3 \<Rightarrow>
          let g = takeWhile (\<lambda>c. c \<noteq> 34) r3; r4 = dropWhile (\<lambda>c. c \<noteq> 34) r3 in
          if g = [] then None
          else
     (case expect [34] r4 of
        None \<Rightarrow> None
      | Some r5 \<Rightarrow>
     (case expect [41] (dropWhile is_space r5) of
        None \<Rightarrow> None
      | Some r6 \<Rightarrow> if dropWhile is_space r6 = [] then Some g else None)))))"

subsection \<open>Cleaning a source\<close>

definition REPLACED_WITH_HOME :: pystr where
  "REPLACED_WITH_HOME = py ''<[HOME]>''"

text \<open>
  \<open>FileManager._clean_source\<close>.  The result of \<open>_find_import_file\<close> depends on the host
  file system and on the files stored so far; it enters as the parameter
  \<open>find_import\<close>, which gives the synthetic game path of the imported file, or \<open>None\<close>
  when no file is found or its synthetic path is empty.  \<open>clean_lines\<close> is the loop over
  the lines, threading \<open>(ret, is_ok, is_home_replaced)\<close>; \<open>clean_source\<close> returns the new
  contents, the flag \<open>is_ok\<close> and the new \<open>is_home_replaced\<close> of the source.
\<close>

fun clean_lines ::
  "(pystr \<Rightarrow> pystr option) \<Rightarrow> pystr list \<Rightarrow> pystr \<times> bool \<times> bool \<Rightarrow> pystr \<times> bool \<times> bool"
where
  "clean_lines find_import [] acc = acc"
| "clean_lines find_import (l # ls) (ret, is_ok, home) =
     (let line = strip_trailing_comment (strip l) in
      case import_re_match line of
        None \<Rightarrow> clean_lines find_import ls (ret @ [10] @ line, is_ok, home)
      | Some include_ref \<Rightarrow>
          (case find_import include_ref of
             None \<Rightarrow> clean_lines find_import ls (ret, False, home)
           | Some imported_game_file \<Rightarrow>
               if startswith imported_game_file (py ''~/'')
               then clean_lines find_import ls
                      (ret @ [10] @ py ''import_code('' @ [34] @ REPLACED_WITH_HOME
                         @ drop 1 imported_game_file @ [34, 41], is_ok, True)
               else clean_lines find_import ls
                      (ret @ [10] @ py ''import_code('' @ [34] @ imported_game_file @ [34, 41],
                       is_ok, home)))"

definition clean_source ::
  "(pystr \<Rightarrow> pystr option) \<Rightarrow> pystr \<Rightarrow> bool \<Rightarrow> pystr \<times> bool \<times> bool" where
  "clean_source find_import contents is_home_replaced =
     clean_lines find_import (splitlines contents) ([], True, is_home_replaced)"

text \<open>The number of lines of a text that are separated by the character LF.\<close>

definition count_lines :: "pystr \<Rightarrow> nat" where
  "count_lines s = Suc (length (filter (\<lambda>c. c = 10) s))"

text \<open>
  Claim C6.  The claim says that a line whose every \<open>//\<close> lies inside a string
  literal is returned unchanged, and that otherwise the result is the prefix ending
  just before the first \<open>//\<close> outside string literals.  The scanner never leaves
  state 2 once it has seen a single slash: in \<^verbatim>\<open>x = 1/2 + f("a//b")\<close> the
  only \<open>//\<close> is inside the string, yet the line is cut inside the string; in
  \<^verbatim>\<open>1/2 // half\<close> the comment starts at position 4 and the result is the
  prefix of length 3.  The line \<^verbatim>\<open>say("a//b")\<close> is returned unchanged, and so
  is the prefix before a \<open>//\<close> that no single slash precedes.
\<close>

theorem strip_trailing_comment_after_single_slash:
  \<open>strip_trailing_comment (py ''x = 1/2 + f("a//b")'') = py ''x = 1/2 + f("'' \<and>
   strip_trailing_comment (py ''1/2 // half'') = py ''1/2'' \<and>
   strip_trailing_comment (py ''say("a//b")'') = py ''say("a//b")'' \<and>
   strip_trailing_comment (py ''x = 1 // one'') = py ''x = 1 ''\<close>
  by (simp add: strip_trailing_comment_def py_def)

text \<open>
  Claim C7.  The claim says the rewritten content has as many LF-separated lines as
  the original.  The loop appends a line feed before every line, the first one
  included: a source whose content is the single line \<open>a\<close> (no import, nothing
  dropped, \<open>is_ok\<close> true) is rewritten to a line feed followed by \<open>a\<close>, two lines
  for one, and the line \<open>a\<close> moves from line 1 to line 2.
\<close>

theorem clean_source_prepends_line_feed:
  "clean_source find_import (py ''a'') h = ([10, 97], True, h) \<and>
   count_lines (py ''a'') = 1 \<and>
   count_lines (fst (clean_source find_import (py ''a'') h)) = 2"
  by (simp add: clean_source_def splitlines_def py_def strip_def is_space_def
      is_linebreak_def strip_trailing_comment_def import_re_match_def count_lines_def)

section \<open>String chunks\<close>

text \<open>
  \<open>text.encode("ascii")\<close> raises \<open>UnicodeEncodeError\<close> on a code point above 127.
  \<open>text.encode("utf-16")\<close> writes a byte order mark and then every code unit in the
  byte order of the host: on a little-endian host (the source's comment names the mark
  \<^verbatim>\<open>\xff \xfe\<close>) the low byte comes first.  The parameter \<open>be\<close> is true on a
  big-endian host.  A code point above U+FFFF is written as a surrogate pair, and a
  lone surrogate (U+D800 to U+DFFF) raises \<open>UnicodeEncodeError\<close>.
\<close>

definition encode_ascii :: "pystr \<Rightarrow> error + byte list" where
  "encode_ascii text =
     (if list_all (\<lambda>c. c < 128) text then Inr (map of_nat text) else Inl UnicodeEncodeError)"

definition utf16_unit :: "bool \<Rightarrow> nat \<Rightarrow> byte list" where
  "utf16_unit be u =
     (if be then [of_nat (u div 256), of_nat (u mod 256)]
      else [of_nat (u mod 256), of_nat (u div 256)])"

fun encode_utf16_units :: "bool \<Rightarrow> pystr \<Rightarrow> error + byte list" where
  "encode_utf16_units be [] = Inr []"
| "encode_utf16_units be (c # cs) =
     (if 55296 \<le> c \<and> c \<le> 57343 then Inl UnicodeEncodeError
      else ebind (encode_utf16_units be cs) (\<lambda>r.
        Inr ((if c < 65536 then utf16_unit be c
              else utf16_unit be (55296 + (c - 65536) div 1024)
                 @ utf16_unit be (56320 + (c - 65536) mod 1024)) @ r)))"

definition encode_utf16 :: "bool \<Rightarrow> pystr \<Rightarrow> error + byte list" where
  "encode_utf16 be text =
     ebind (encode_utf16_units be text) (\<lambda>b.
       Inr ((if be then [254, 255] else [255, 254]) @ b))"

text \<open>
  The loop \<open>for i in range(0, len(encoded), 2): data += mk_uint16((encoded[i] << 8) +
  encoded[i + 1])\<close> of \<open>mk_block_string\<close>.
\<close>

fun utf16_pairs :: "byte list \<Rightarrow> error + byte list" where
  "utf16_pairs [] = Inr []"
| "utf16_pairs [a] = Inl IndexError"
| "utf16_pairs (a # b # rest) =
     ebind (mk_uint16 (unat a * 256 + unat b)) (\<lambda>w.
     ebind (utf16_pairs rest) (\<lambda>r. Inr (w @ r)))"

definition mk_block_string :: "bool \<Rightarrow> nat \<Rightarrow> pystr \<Rightarrow> bool \<Rightarrow> error + byte list" where
  "mk_block_string be index text needs_home_replacement =
     (case encode_ascii text of
        Inr encoded \<Rightarrow>
          ebind (mk_ref index) (\<lambda>r.
          ebind (mk_uint16 (length text)) (\<lambda>n.
          mk_chunk (if needs_home_replacement then BLOCK_ASCII_REPLACED_HOME else BLOCK_ASCII)
            (r @ n @ encoded)))
      | Inl _ \<Rightarrow>
          ebind (encode_utf16 be text) (\<lambda>e.
            let encoded = drop 2 e in
            if length encoded \<noteq> length text * 2 then Inl RuntimeError
            else
              ebind (utf16_pairs encoded) (\<lambda>data.
              ebind (mk_ref index) (\<lambda>r.
              ebind (mk_uint16 (length text)) (\<lambda>n.
              mk_chunk
                (if needs_home_replacement then BLOCK_UTF16_REPLACED_HOME else BLOCK_UTF16)
                (r @ n @ data))))))"

definition mk_block_rel_home :: "nat \<Rightarrow> pystr \<Rightarrow> error + byte list" where
  "mk_block_rel_home index text =
     ebind (mk_ref index) (\<lambda>r.
     ebind (mk_uint16 (length text)) (\<lambda>n.
     ebind (encode_ascii text) (\<lambda>encoded.
     mk_chunk BLOCK_REL_HOME (r @ n @ encoded))))"

text \<open>
  Claim C4.  The claim says a string of the Basic Multilingual Plane that is not all
  ASCII is stored two bytes per character in big-endian order.  On a little-endian
  host the source takes the bytes of \<open>encode("utf-16")\<close>, low byte first, as if the
  high byte came first: the one-character string U+00E9 is stored as the bytes E9 00
  (kind 2; kind 5 when home-rewritten), which read big-endian are U+E900.  On a
  big-endian host the bytes are 00 E9.  A code point above U+FFFF makes the call fail
  with \<open>RuntimeError\<close> on either host.
\<close>

theorem mk_block_string_utf16_byte_order:
  "mk_block_string False 0 [233] False = Inr [2, 0, 6, 0, 0, 0, 1, 233, 0] \<and>
   mk_block_string False 0 [233] True = Inr [5, 0, 6, 0, 0, 0, 1, 233, 0] \<and>
   mk_block_string True 0 [233] False = Inr [2, 0, 6, 0, 0, 0, 1, 0, 233] \<and>
   mk_block_string False 0 [128512] False = Inl RuntimeError \<and>
   mk_block_string True 0 [128512] False = Inl RuntimeError"
  by (simp add: mk_block_string_def encode_ascii_def encode_utf16_def utf16_unit_def
      mk_ref_def mk_uint16_def mk_chunk_def ebind_def block_kinds)

end
